theory Spec2Isabelle
  imports Complex_Main "HOL-Library.Word" "HOL-Library.Product_Lexorder" "HOL-Library.Multiset"
begin

section \<open>Python values: exceptions and floats\<close>

text \<open>
  Every \<^verbatim>\<open>raise\<close> of the source, and every exception of the Python built-ins it calls,
  is a value of \<open>python_error\<close>; a function that can raise returns \<open>python_error + 'a\<close>,
  with \<open>Inl\<close> for the exception.  \<open>StructError\<close> is \<^verbatim>\<open>struct.error\<close>, and
  \<open>Exception msg\<close> is \<^verbatim>\<open>raise Exception(msg)\<close>.
\<close>

datatype python_error =
    ZeroDivisionError
  | OverflowError
  | ValueError
  | StructError
  | IndexError
  | KeyError
  | StopIteration
  | Exception string

definition and_then ::
  "python_error + 'a \<Rightarrow> ('a \<Rightarrow> python_error + 'b) \<Rightarrow> python_error + 'b" where
  "and_then m f = (case m of Inl e \<Rightarrow> Inl e | Inr x \<Rightarrow> f x)"

fun map_err :: "('a \<Rightarrow> python_error + 'b) \<Rightarrow> 'a list \<Rightarrow> python_error + 'b list" where
  "map_err f [] = Inr []"
| "map_err f (x # xs) =
     (case f x of
        Inl e \<Rightarrow> Inl e
      | Inr y \<Rightarrow> (case map_err f xs of Inl e \<Rightarrow> Inl e | Inr ys \<Rightarrow> Inr (y # ys)))"

text \<open>
  \<^verbatim>\<open>xs[i]\<close> on a Python sequence: a negative index counts from the end, and an index
  outside the sequence raises \<^verbatim>\<open>IndexError\<close>.
\<close>

definition py_list_index :: "'a list \<Rightarrow> int \<Rightarrow> python_error + 'a" where
  "py_list_index xs i =
     (if 0 \<le> i \<and> i < int (length xs) then Inr (xs ! nat i)
      else if i < 0 \<and> - int (length xs) \<le> i then Inr (xs ! nat (int (length xs) + i))
      else Inl IndexError)"

text \<open>\<^verbatim>\<open>d[k]\<close> on a dictionary.\<close>

definition py_dict_get :: "('k \<rightharpoonup> 'v) \<Rightarrow> 'k \<Rightarrow> python_error + 'v" where
  "py_dict_get d k = (case d k of None \<Rightarrow> Inl KeyError | Some v \<Rightarrow> Inr v)"

text \<open>
  A Python \<^verbatim>\<open>float\<close> is an IEEE 754 binary64 value: a finite one is the rational number it
  denotes (\<open>Fin\<close>), the others are the two infinities and not-a-number.  The sign of a
  zero is not kept: Python's \<^verbatim>\<open>==\<close> does not see it, and no operation below depends on
  it.  Arithmetic is exact arithmetic on the rationals followed by rounding to nearest,
  ties to even, at 53 bits (binary64) or 24 bits (binary32, the \<^verbatim>\<open>f\<close> format of
  \<^verbatim>\<open>struct\<close>).
\<close>

datatype pyfloat = Fin rat | PInf | NInf | NaN

function bit_length :: "int \<Rightarrow> int" where
  "bit_length n = (if n \<le> 0 then 0 else 1 + bit_length (n div 2))"
  by pat_completeness auto
termination
  by (relation "measure nat") auto

declare bit_length.simps [simp del]

definition pow2 :: "int \<Rightarrow> rat" where
  "pow2 k = (if 0 \<le> k then 2 ^ nat k else 1 / 2 ^ nat (- k))"

text \<open>\<open>ilog2 x\<close> is the binary exponent of a positive \<open>x\<close>: \<open>2 ^ e \<le> x < 2 ^ (e + 1)\<close>.\<close>

definition ilog2 :: "rat \<Rightarrow> int" where
  "ilog2 x = (if 1 \<le> x then bit_length \<lfloor>x\<rfloor> - 1
              else - bit_length (\<lceil>1 / x\<rceil> - 1))"

definition round_half_even :: "rat \<Rightarrow> int" where
  "round_half_even x =
     (let f = \<lfloor>x\<rfloor>; d = x - of_int f
      in if d < 1 / 2 then f
         else if 1 / 2 < d then f + 1
         else if even f then f else f + 1)"

text \<open>
  Rounding to a binary format of precision \<open>p\<close> whose smallest normal exponent is
  \<open>emin\<close>: below \<open>2 ^ emin\<close> the spacing stays that of the subnormal numbers.  The exponent
  is not bounded above here; \<open>overflows emax\<close> tells whether the rounded value is beyond
  the largest finite number of the format.
\<close>

definition round_to :: "nat \<Rightarrow> int \<Rightarrow> rat \<Rightarrow> rat" where
  "round_to p emin x =
     (if x = 0 then 0
      else let e = max (ilog2 \<bar>x\<bar>) emin;
               q = pow2 (e - int p + 1)
           in of_int (round_half_even (x / q)) * q)"

definition overflows :: "int \<Rightarrow> rat \<Rightarrow> bool" where
  "overflows emax s = (s \<noteq> 0 \<and> emax < ilog2 \<bar>s\<bar>)"

definition fl64 :: "rat \<Rightarrow> pyfloat" where
  "fl64 x =
     (let s = round_to 53 (- 1022) x
      in if overflows 1023 s then (if 0 < s then PInf else NInf) else Fin s)"

text \<open>
  A value of the model is a Python float when it is one of the special values or a
  rational that binary64 represents, that is, one that rounding leaves alone.
\<close>

definition is_binary64 :: "pyfloat \<Rightarrow> bool" where
  "is_binary64 x = (case x of Fin a \<Rightarrow> fl64 a = Fin a | _ \<Rightarrow> True)"

fun py_neg :: "pyfloat \<Rightarrow> pyfloat" where
  "py_neg (Fin a) = Fin (- a)"
| "py_neg PInf = NInf"
| "py_neg NInf = PInf"
| "py_neg NaN = NaN"

fun py_abs :: "pyfloat \<Rightarrow> pyfloat" where
  "py_abs (Fin a) = Fin \<bar>a\<bar>"
| "py_abs PInf = PInf"
| "py_abs NInf = PInf"
| "py_abs NaN = NaN"

fun py_add :: "pyfloat \<Rightarrow> pyfloat \<Rightarrow> pyfloat" where
  "py_add (Fin a) (Fin b) = fl64 (a + b)"
| "py_add NaN y = NaN"
| "py_add x NaN = NaN"
| "py_add PInf NInf = NaN"
| "py_add NInf PInf = NaN"
| "py_add PInf y = PInf"
| "py_add NInf y = NInf"
| "py_add (Fin a) y = y"

fun py_mul :: "pyfloat \<Rightarrow> pyfloat \<Rightarrow> pyfloat" where
  "py_mul (Fin a) (Fin b) = fl64 (a * b)"
| "py_mul NaN y = NaN"
| "py_mul x NaN = NaN"
| "py_mul PInf (Fin b) = (if b = 0 then NaN else if 0 < b then PInf else NInf)"
| "py_mul NInf (Fin b) = (if b = 0 then NaN else if 0 < b then NInf else PInf)"
| "py_mul (Fin a) PInf = (if a = 0 then NaN else if 0 < a then PInf else NInf)"
| "py_mul (Fin a) NInf = (if a = 0 then NaN else if 0 < a then NInf else PInf)"
| "py_mul PInf PInf = PInf"
| "py_mul PInf NInf = NInf"
| "py_mul NInf PInf = NInf"
| "py_mul NInf NInf = PInf"

definition py_sub :: "pyfloat \<Rightarrow> pyfloat \<Rightarrow> pyfloat" where
  "py_sub x y = py_add x (py_neg y)"

text \<open>Comparisons: every comparison with not-a-number is false.\<close>

fun py_lt :: "pyfloat \<Rightarrow> pyfloat \<Rightarrow> bool" where
  "py_lt (Fin a) (Fin b) = (a < b)"
| "py_lt NaN y = False"
| "py_lt x NaN = False"
| "py_lt x NInf = False"
| "py_lt PInf y = False"
| "py_lt NInf y = True"
| "py_lt (Fin a) PInf = True"

fun py_le :: "pyfloat \<Rightarrow> pyfloat \<Rightarrow> bool" where
  "py_le (Fin a) (Fin b) = (a \<le> b)"
| "py_le NaN y = False"
| "py_le x NaN = False"
| "py_le NInf y = True"
| "py_le x PInf = True"
| "py_le x NInf = False"
| "py_le PInf y = False"

definition py_gt :: "pyfloat \<Rightarrow> pyfloat \<Rightarrow> bool" where
  "py_gt x y = py_lt y x"

definition py_ge :: "pyfloat \<Rightarrow> pyfloat \<Rightarrow> bool" where
  "py_ge x y = py_le y x"

text \<open>
  True division \<^verbatim>\<open>x / y\<close> of two floats: a zero divisor raises, whatever the dividend.
\<close>

fun py_truediv :: "pyfloat \<Rightarrow> pyfloat \<Rightarrow> python_error + pyfloat" where
  "py_truediv x (Fin b) =
     (if b = 0 then Inl ZeroDivisionError
      else case x of
             Fin a \<Rightarrow> Inr (fl64 (a / b))
           | PInf \<Rightarrow> Inr (if 0 < b then PInf else NInf)
           | NInf \<Rightarrow> Inr (if 0 < b then NInf else PInf)
           | NaN \<Rightarrow> Inr NaN)"
| "py_truediv (Fin a) PInf = Inr (Fin 0)"
| "py_truediv (Fin a) NInf = Inr (Fin 0)"
| "py_truediv x y = Inr NaN"

text \<open>
  The built-in \<^verbatim>\<open>sum\<close> adds from left to right, starting from the integer 0, and rounds
  after every addition.
\<close>

definition py_sum :: "pyfloat list \<Rightarrow> pyfloat" where
  "py_sum xs = foldl py_add (Fin 0) xs"

text \<open>
  \<^verbatim>\<open>math.fsum\<close> rounds the exact sum once.  Infinities of both signs raise
  \<^verbatim>\<open>ValueError\<close>; otherwise an infinity or a not-a-number among the arguments is the
  result; a finite sum beyond the binary64 range raises \<^verbatim>\<open>OverflowError\<close>.
\<close>

fun finite_part :: "pyfloat \<Rightarrow> rat" where
  "finite_part (Fin a) = a"
| "finite_part x = 0"

definition fsum :: "pyfloat list \<Rightarrow> python_error + pyfloat" where
  "fsum xs =
     (if PInf \<in> set xs \<and> NInf \<in> set xs then Inl ValueError
      else if NaN \<in> set xs then Inr NaN
      else if PInf \<in> set xs then Inr PInf
      else if NInf \<in> set xs then Inr NInf
      else let s = round_to 53 (- 1022) (sum_list (map finite_part xs))
           in if overflows 1023 s then Inl OverflowError else Inr (Fin s))"

text \<open>
  \<^verbatim>\<open>struct.pack("<f", x)\<close> followed by \<^verbatim>\<open>struct.unpack\<close>: the value rounded to
  binary32.  A finite value that rounds beyond the binary32 range raises
  \<^verbatim>\<open>OverflowError\<close>.
\<close>

fun pack_unpack_f :: "pyfloat \<Rightarrow> python_error + pyfloat" where
  "pack_unpack_f (Fin a) =
     (let s = round_to 24 (- 126) a
      in if overflows 127 s then Inl OverflowError else Inr (Fin s))"
| "pack_unpack_f x = Inr x"

section \<open>\<^verbatim>\<open>vrm_types.normalize_weights_compatible_with_gl_float\<close>\<close>

text \<open>\<^verbatim>\<open>sys.float_info.epsilon\<close>, the gap between 1.0 and the next binary64 number.\<close>

definition epsilon :: pyfloat where
  "epsilon = Fin (1 / 2 ^ 52)"

text \<open>
  \<^verbatim>\<open>to_gl_float\<close>: \<^verbatim>\<open>struct.pack("<ffff", *array4)\<close> wants exactly four items.
\<close>

definition to_gl_float :: "pyfloat list \<Rightarrow> python_error + pyfloat list" where
  "to_gl_float array4 =
     (if length array4 \<noteq> 4 then Inl StructError else map_err pack_unpack_f array4)"

text \<open>
  The body of \<^verbatim>\<open>for _ in range(10)\<close>, with the number of rounds left as the first
  argument; \<^verbatim>\<open>break\<close> returns the weights of the round before.
\<close>

fun normalize_rounds :: "nat \<Rightarrow> pyfloat list \<Rightarrow> python_error + pyfloat list" where
  "normalize_rounds 0 weights = Inr weights"
| "normalize_rounds (Suc n) weights =
     and_then (map_err (\<lambda>i. and_then (py_list_index weights i)
                              (\<lambda>w. py_truediv w (py_sum weights))) [0, 1, 2, 3])
       (\<lambda>quotients. and_then (to_gl_float quotients)
       (\<lambda>next_weights. and_then (fsum weights)
       (\<lambda>total. and_then (fsum next_weights)
       (\<lambda>next_total.
          let error = py_abs (py_sub (Fin 1) total);
              next_error = py_abs (py_sub (Fin 1) next_total)
          in if py_ge error epsilon \<and> py_gt error next_error
             then normalize_rounds n next_weights
             else Inr weights))))"

definition normalize_weights_compatible_with_gl_float ::
  "pyfloat list \<Rightarrow> python_error + pyfloat list" where
  "normalize_weights_compatible_with_gl_float weights =
     (if py_lt (py_abs (py_sub (py_sum weights) (Fin 1))) epsilon then Inr weights
      else and_then (to_gl_float weights) (normalize_rounds 10))"

section \<open>\<^verbatim>\<open>vrm_types.nested_json_value_getter\<close>\<close>

datatype json_value =
    JNone
  | JBool bool
  | JInt int
  | JFloat pyfloat
  | JStr string
  | JList "json_value list"
  | JDict "(string \<times> json_value) list"

datatype attr = IntAttr int | StrAttr string

text \<open>
  The first equation is \<^verbatim>\<open>if json is None: return default\<close>; the second is
  \<^verbatim>\<open>attrs.pop(0)\<close> on an empty list; the last is the final \<^verbatim>\<open>return default\<close>.  A
  dictionary is the list of its items, with distinct keys.
\<close>

fun nested_json_value_getter ::
  "json_value \<Rightarrow> attr list \<Rightarrow> json_value \<Rightarrow> python_error + json_value" where
  "nested_json_value_getter JNone attrs dflt = Inr dflt"
| "nested_json_value_getter json [] dflt = Inl IndexError"
| "nested_json_value_getter (JList xs) (IntAttr attr # attrs) dflt =
     (if 0 < length xs \<and> int (length xs) < attr
      then (case py_list_index xs attr of
              Inl e \<Rightarrow> Inl e
            | Inr v \<Rightarrow> if attrs = [] then Inr v
                       else nested_json_value_getter v attrs dflt)
      else Inr dflt)"
| "nested_json_value_getter (JDict d) (StrAttr attr # attrs) dflt =
     (case map_of d attr of
        Some v \<Rightarrow> if attrs = [] then Inr v
                  else nested_json_value_getter v attrs dflt
      | None \<Rightarrow> Inr dflt)"
| "nested_json_value_getter json (attr # attrs) dflt = Inr dflt"

section \<open>\<^verbatim>\<open>GlbObj.axis_blender_to_glb\<close> and \<^verbatim>\<open>bone_to_node\<close>\<close>

text \<open>
  \<^verbatim>\<open>[vec3[i] * t for i, t in zip([0, 2, 1], [-1, 1, 1])]\<close>.  A Blender vector is the
  list of its components.
\<close>

definition axis_blender_to_glb :: "pyfloat list \<Rightarrow> python_error + pyfloat list" where
  "axis_blender_to_glb vec3 =
     map_err (\<lambda>(i, t). and_then (py_list_index vec3 i) (\<lambda>v. Inr (py_mul v t)))
       (zip [0, 2, 1] [Fin (- 1), Fin 1, Fin 1])"

text \<open>
  What \<^verbatim>\<open>bone_to_node\<close> reads of a \<^verbatim>\<open>bpy.types.Bone\<close>: its name, the position of its
  head in armature space, the head of its parent when it has one, and the names of its
  children.
\<close>

record bone =
  bone_name :: string
  head_local :: "pyfloat list"
  parent_head_local :: "pyfloat list option"
  children_names :: "string list"

text \<open>A node of the glTF document; \<open>node_children = None\<close> is a node without that key.\<close>

record node =
  node_name :: string
  translation :: "pyfloat list"
  node_children :: "nat list option"

definition bone_to_node :: "(string \<rightharpoonup> nat) \<Rightarrow> bone \<Rightarrow> python_error + node" where
  "bone_to_node bone_id_dic b_bone =
     (let parent_head =
            (case parent_head_local b_bone of
               Some p \<Rightarrow> p
             | None \<Rightarrow> [Fin 0, Fin 0, Fin 0])
      in and_then (map_err (\<lambda>i. and_then (py_list_index (head_local b_bone) i)
                             (\<lambda>h. and_then (py_list_index parent_head i)
                             (\<lambda>p. Inr (py_sub h p)))) [0, 1, 2])
         (\<lambda>relative. and_then (axis_blender_to_glb relative)
         (\<lambda>converted. and_then (map_err (py_dict_get bone_id_dic) (children_names b_bone))
         (\<lambda>children.
            Inr \<lparr>node_name = bone_name b_bone,
                 translation = converted,
                 node_children = (if length children = 0 then None else Some children)\<rparr>))))"

section \<open>\<^verbatim>\<open>GlbObj.finalize\<close>: the binary container\<close>

type_synonym byte = "8 word"

text \<open>A bytes literal of ASCII characters.\<close>

definition ascii :: "string \<Rightarrow> byte list" where
  "ascii s = map (\<lambda>c. of_nat (of_char c)) s"

text \<open>
  \<^verbatim>\<open>struct.pack("<I", n)\<close>: the four bytes of an unsigned 32-bit number, least
  significant first; a number that does not fit raises \<^verbatim>\<open>struct.error\<close>.
\<close>

definition pack_I :: "nat \<Rightarrow> python_error + byte list" where
  "pack_I n =
     (if n < 2 ^ 32
      then Inr [of_nat n, of_nat (n div 2 ^ 8), of_nat (n div 2 ^ 16), of_nat (n div 2 ^ 24)]
      else Inl StructError)"

text \<open>The number that a little-endian 32-bit field declares.\<close>

definition unpack_I :: "byte list \<Rightarrow> nat" where
  "unpack_I bs = foldr (\<lambda>b n. unat b + 2 ^ 8 * n) bs 0"

text \<open>
  \<open>json_dumped\<close> is \<^verbatim>\<open>json.dumps(self.json_dic).encode("utf-8")\<close> and \<open>bin\<close> is the
  buffer that \<^verbatim>\<open>self.glb_bin_collector.pack_all()\<close> returned; the result is
  \<^verbatim>\<open>self.result\<close>.
\<close>

definition finalize :: "byte list \<Rightarrow> byte list \<Rightarrow> python_error + byte list" where
  "finalize json_dumped bin =
     and_then (pack_I 2)
     (\<lambda>version.
        let magic = ascii ''glTF'' @ version;
            json_str = (if length json_dumped mod 4 \<noteq> 0
                        then json_dumped @ replicate (4 - length json_dumped mod 4) 0x20
                        else json_dumped)
        in and_then (pack_I (length json_str))
     (\<lambda>json_size.
        let padded_bin = (if length bin mod 4 \<noteq> 0
                          then bin @ replicate (4 - length bin mod 4) 0x00
                          else bin)
        in and_then (pack_I (length padded_bin))
     (\<lambda>bin_size. and_then (pack_I (length json_str + length padded_bin + 28))
     (\<lambda>total_size.
        Inr (magic @ total_size @ json_size @ ascii ''JSON'' @ json_str
             @ bin_size @ ascii ''BIN'' @ [0x00] @ padded_bin)))))"

section \<open>\<^verbatim>\<open>GlbObj.mesh_to_bin_and_dic\<close>: skin weights of a vertex\<close>

text \<open>
  What the export prints.  The messages are kept by their content:
  \<^verbatim>\<open>"{node_name} bone may be not exist"\<close>,
  \<^verbatim>\<open>"Joints on vertex id:{index} in: {mesh} are truncated"\<close>,
  \<^verbatim>\<open>"No weight on vertex id:{index} in: {mesh}"\<close> and
  \<^verbatim>\<open>"something wrong in custom normal export"\<close>.  A function that prints returns the
  list of its messages with its result; what was printed before an exception is not kept.
\<close>

datatype diagnostic =
    BoneMayNotExist string
  | JointsTruncated nat string
  | NoWeight nat string
  | CustomNormalWrong

text \<open>\<^verbatim>\<open>xs.index(x)\<close>, with \<open>None\<close> for \<^verbatim>\<open>ValueError\<close>, and the same search as
  \<^verbatim>\<open>next(i for i, y in enumerate(xs) if y == x)\<close>.\<close>

fun first_index :: "'a list \<Rightarrow> 'a \<Rightarrow> nat option" where
  "first_index [] x = None"
| "first_index (y # ys) x =
     (if y = x then Some 0 else map_option Suc (first_index ys x))"

text \<open>
  What the skinning of a vertex reads of the exporter and of the mesh: the names of
  \<^verbatim>\<open>mesh.vertex_groups\<close> by index, the names of \<^verbatim>\<open>self.json_dic["nodes"]\<close> in order, the
  joint lists of \<^verbatim>\<open>self.json_dic["skins"]\<close>, the custom property
  \<^verbatim>\<open>self.armature.data["hips"]\<close> when it is set, and the name of the mesh.
\<close>

record skin_env =
  v_group_name_dic :: "nat \<rightharpoonup> string"
  node_names :: "string list"
  skins_joints :: "nat list list"
  hips :: "string option"
  mesh_name :: string

text \<open>
  \<^verbatim>\<open>{node["name"]: i for i, node in enumerate(self.json_dic["nodes"])}\<close>: of two nodes
  with one name the later one stays.
\<close>

definition node_id_dic :: "skin_env \<Rightarrow> string \<rightharpoonup> nat" where
  "node_id_dic env = map_of (rev (zip (node_names env) [0 ..< length (node_names env)]))"

text \<open>
  \<^verbatim>\<open>joint_id_from_node_name_solver\<close>.  \<^verbatim>\<open>KeyError\<close> and \<^verbatim>\<open>ValueError\<close> are caught and
  give -1; the \<^verbatim>\<open>IndexError\<close> of \<^verbatim>\<open>self.json_dic["skins"][0]\<close> on an empty list is not.
\<close>

definition joint_id_from_node_name_solver ::
  "skin_env \<Rightarrow> string \<Rightarrow> python_error + (int \<times> diagnostic list)" where
  "joint_id_from_node_name_solver env name =
     (case node_id_dic env name of
        None \<Rightarrow> Inr (- 1, [BoneMayNotExist name])
      | Some node_id \<Rightarrow>
          (case skins_joints env of
             [] \<Rightarrow> Inl IndexError
           | joints # _ \<Rightarrow>
               (case first_index joints node_id of
                  None \<Rightarrow> Inr (- 1, [BoneMayNotExist name])
                | Some joint \<Rightarrow> Inr (int joint, []))))"

text \<open>
  The loop over \<^verbatim>\<open>mesh_data.vertices[loop.vert.index].groups\<close>.  A group is its index
  \<^verbatim>\<open>v_group.group\<close> and its weight \<^verbatim>\<open>v_group.weight\<close>, a finite float (Blender keeps
  weights in [0, 1]).  The result is \<^verbatim>\<open>weight_and_joint_list\<close> after the loop.
\<close>

fun gather_weights ::
  "skin_env \<Rightarrow> (nat \<times> rat) list \<Rightarrow> python_error + ((rat \<times> int) list \<times> diagnostic list)" where
  "gather_weights env [] = Inr ([], [])"
| "gather_weights env ((group_index, weight) # groups) =
     and_then (py_dict_get (v_group_name_dic env) group_index)
     (\<lambda>name. and_then (joint_id_from_node_name_solver env name)
     (\<lambda>(joint_id, printed). and_then (gather_weights env groups)
     (\<lambda>(rest, printed_later).
        Inr (if joint_id = - 1 then rest
             else if py_lt (Fin weight) epsilon then rest
             else (weight, joint_id) # rest,
             printed @ printed_later))))"

text \<open>
  Padding with \<^verbatim>\<open>(0.0, 0)\<close> while there are fewer than four pairs,
  \<^verbatim>\<open>sort(reverse=True)\<close> on the pairs, and the cut to four with its message.
\<close>

definition pad_sort_truncate ::
  "nat \<Rightarrow> string \<Rightarrow> (rat \<times> int) list \<Rightarrow> (rat \<times> int) list \<times> diagnostic list" where
  "pad_sort_truncate vert_index mesh weight_and_joint_list =
     (let padded = weight_and_joint_list @ replicate (4 - length weight_and_joint_list) (0, 0);
          sorted = rev (sort padded)
      in if 4 < length sorted
         then (take 4 sorted, [JointsTruncated vert_index mesh])
         else (sorted, []))"

text \<open>
  The branch \<^verbatim>\<open>if sum(weights) < float_info.epsilon\<close>: the vertex is bound to the node
  named by \<^verbatim>\<open>self.armature.data["hips"]\<close>.  The property may be missing
  (\<^verbatim>\<open>KeyError\<close>) and \<^verbatim>\<open>next\<close> may find no node of that name (\<^verbatim>\<open>StopIteration\<close>).
\<close>

definition attach_hips ::
  "skin_env \<Rightarrow> nat \<Rightarrow> python_error + (rat list \<times> int list \<times> diagnostic list)" where
  "attach_hips env vert_index =
     (case hips env of
        None \<Rightarrow> Inl KeyError
      | Some hips_bone_name \<Rightarrow>
          (case first_index (node_names env) hips_bone_name of
             None \<Rightarrow> Inl StopIteration
           | Some hips_bone_index \<Rightarrow>
               Inr ([1, 0, 0, 0], [int hips_bone_index, 0, 0, 0],
                    [NoWeight vert_index (mesh_name env)])))"

text \<open>
  \<^verbatim>\<open>struct.Struct("<HHHH").pack(*joints)\<close> and \<^verbatim>\<open>struct.Struct("<ffff").pack(*weights)\<close>.
  The buffers of joints and weights are kept as the lists of the packed values, 16-bit
  numbers and binary32 floats, not as their bytes.
\<close>

definition unsigned_short_vec4_packer :: "int list \<Rightarrow> python_error + nat list" where
  "unsigned_short_vec4_packer joints =
     (if length joints \<noteq> 4 then Inl StructError
      else map_err (\<lambda>j. if 0 \<le> j \<and> j < 2 ^ 16 then Inr (nat j) else Inl StructError) joints)"

definition float_vec4_packer :: "pyfloat list \<Rightarrow> python_error + pyfloat list" where
  "float_vec4_packer weights =
     (if length weights \<noteq> 4 then Inl StructError else map_err pack_unpack_f weights)"

text \<open>
  The whole block under \<^verbatim>\<open>if is_skin_mesh:\<close> for one new vertex: what is appended to
  \<^verbatim>\<open>joints_bin\<close> and to \<^verbatim>\<open>weights_bin\<close>, and what is printed.
\<close>

definition vertex_skin ::
  "skin_env \<Rightarrow> nat \<Rightarrow> (nat \<times> rat) list \<Rightarrow>
   python_error + (nat list \<times> pyfloat list \<times> diagnostic list)" where
  "vertex_skin env vert_index groups =
     and_then (gather_weights env groups)
     (\<lambda>(gathered, printed1).
        let (weight_and_joint_list, printed2) =
              pad_sort_truncate vert_index (mesh_name env) gathered;
            weights = map fst weight_and_joint_list;
            joints = map snd weight_and_joint_list
        in and_then (if py_lt (py_sum (map Fin weights)) epsilon
                     then attach_hips env vert_index
                     else Inr (weights, joints, []))
     (\<lambda>(weights, joints, printed3).
        and_then (normalize_weights_compatible_with_gl_float (map Fin weights))
     (\<lambda>normalized_weights. and_then (unsigned_short_vec4_packer joints)
     (\<lambda>packed_joints. and_then (float_vec4_packer normalized_weights)
     (\<lambda>packed_weights.
        Inr (packed_joints, packed_weights, printed1 @ printed2 @ printed3))))))"

section \<open>\<^verbatim>\<open>GlbObj.mesh_to_bin_and_dic\<close>: the loop over the corners of the faces\<close>





text \<open>
  A \<^verbatim>\<open>mathutils.Vector\<close> of a mesh has three finite components.  Blender keeps the
  coordinates of a mesh as finite numbers; a not-a-number, which Python finds unequal to
  itself, is not among the values of the model.
\<close>

type_synonym vec3 = "rat \<times> rat \<times> rat"
































section \<open>The weight normaliser on the inputs of its test\<close>

lemma normalize_unit:
  "normalize_weights_compatible_with_gl_float [Fin 1, Fin 0, Fin 0, Fin 0]
     = Inr [Fin 1, Fin 0, Fin 0, Fin 0]"
  by code_simp

lemma normalize_two:
  "normalize_weights_compatible_with_gl_float [Fin 2, Fin 0, Fin 0, Fin 0]
     = Inr [Fin 1, Fin 0, Fin 0, Fin 0]"
  by code_simp

lemma normalize_one_three:
  "normalize_weights_compatible_with_gl_float [Fin 1, Fin 3, Fin 0, Fin 0]
     = Inr [Fin (1 / 4), Fin (3 / 4), Fin 0, Fin 0]"
  by code_simp

lemma normalize_twos:
  "normalize_weights_compatible_with_gl_float [Fin 2, Fin 2, Fin 2, Fin 2]
     = Inr [Fin (1 / 4), Fin (1 / 4), Fin (1 / 4), Fin (1 / 4)]"
  by code_simp

lemma normalize_one_epsilon:
  "normalize_weights_compatible_with_gl_float [Fin 0, Fin 0, Fin 0, epsilon]
     = Inr [Fin 0, Fin 0, Fin 0, Fin 1]"
  by code_simp

lemma normalize_two_epsilons:
  "normalize_weights_compatible_with_gl_float [Fin 0, epsilon, Fin 0, epsilon]
     = Inr [Fin 0, Fin (1 / 2), Fin 0, Fin (1 / 2)]"
  by code_simp

lemma normalize_within_epsilon:
  "py_lt (py_abs (py_sub (py_sum weights) (Fin 1))) epsilon \<Longrightarrow>
   normalize_weights_compatible_with_gl_float weights = Inr weights"
  by (simp add: normalize_weights_compatible_with_gl_float_def)

text \<open>
  Claim C1.  Four weights whose \<^verbatim>\<open>sum\<close> is within \<^verbatim>\<open>float_info.epsilon\<close> of 1 are
  returned as they are; and the six inputs of the repository's test give the six listed
  results, where \<open>epsilon\<close> is \<open>2\<^sup>-\<^sup>5\<^sup>2\<close>.
\<close>

theorem normalize_weights_unchanged_and_examples:
  "(\<forall>weights. length weights = 4
        \<and> py_lt (py_abs (py_sub (py_sum weights) (Fin 1))) epsilon
      \<longrightarrow> normalize_weights_compatible_with_gl_float weights = Inr weights)
   \<and> normalize_weights_compatible_with_gl_float [Fin 1, Fin 0, Fin 0, Fin 0]
       = Inr [Fin 1, Fin 0, Fin 0, Fin 0]
   \<and> normalize_weights_compatible_with_gl_float [Fin 2, Fin 0, Fin 0, Fin 0]
       = Inr [Fin 1, Fin 0, Fin 0, Fin 0]
   \<and> normalize_weights_compatible_with_gl_float [Fin 1, Fin 3, Fin 0, Fin 0]
       = Inr [Fin (1 / 4), Fin (3 / 4), Fin 0, Fin 0]
   \<and> normalize_weights_compatible_with_gl_float [Fin 2, Fin 2, Fin 2, Fin 2]
       = Inr [Fin (1 / 4), Fin (1 / 4), Fin (1 / 4), Fin (1 / 4)]
   \<and> normalize_weights_compatible_with_gl_float [Fin 0, Fin 0, Fin 0, epsilon]
       = Inr [Fin 0, Fin 0, Fin 0, Fin 1]
   \<and> normalize_weights_compatible_with_gl_float [Fin 0, epsilon, Fin 0, epsilon]
       = Inr [Fin 0, Fin (1 / 2), Fin 0, Fin (1 / 2)]"
  using normalize_within_epsilon normalize_unit normalize_two normalize_one_three
    normalize_twos normalize_one_epsilon normalize_two_epsilons
  by blast

lemma quarters_within_epsilon:
  "py_lt (py_abs (py_sub (py_sum [Fin (1 / 2), Fin (1 / 4), Fin (1 / 8), Fin (1 / 8)]) (Fin 1)))
     epsilon"
  by code_simp

theorem normalize_weights_unchanged_witness:
  "length [Fin (1 / 2), Fin (1 / 4), Fin (1 / 8), Fin (1 / 8)] = 4
   \<and> py_lt (py_abs (py_sub (py_sum [Fin (1 / 2), Fin (1 / 4), Fin (1 / 8), Fin (1 / 8)]) (Fin 1)))
        epsilon
   \<and> normalize_weights_compatible_with_gl_float [Fin (1 / 2), Fin (1 / 4), Fin (1 / 8), Fin (1 / 8)]
       = Inr [Fin (1 / 2), Fin (1 / 4), Fin (1 / 8), Fin (1 / 8)]"
  using normalize_weights_unchanged_and_examples quarters_within_epsilon
  by simp

lemma zeros_sum: "py_sum [Fin 0, Fin 0, Fin 0, Fin 0] = Fin 0"
  by code_simp

lemma zeros_not_within_epsilon:
  "py_lt (py_abs (py_sub (py_sum [Fin 0, Fin 0, Fin 0, Fin 0]) (Fin 1))) epsilon = False"
  by code_simp

lemma zeros_first_quotient:
  "py_truediv (Fin 0) (py_sum [Fin 0, Fin 0, Fin 0, Fin 0]) = Inl ZeroDivisionError"
  by code_simp

lemma zeros_raise:
  "normalize_weights_compatible_with_gl_float [Fin 0, Fin 0, Fin 0, Fin 0]
     = Inl ZeroDivisionError"
  by code_simp

text \<open>
  Claim C9.  On the four weights \<open>[0, 0, 0, 0]\<close> the sum is 0, which is not within
  \<open>epsilon\<close> of 1; the first quotient \<^verbatim>\<open>weights[0] / sum(weights)\<close> of the first round
  divides by that zero, and the function raises \<^verbatim>\<open>ZeroDivisionError\<close> instead of
  returning.
\<close>

theorem normalize_zero_weights_raises:
  "py_sum [Fin 0, Fin 0, Fin 0, Fin 0] = Fin 0
   \<and> py_lt (py_abs (py_sub (py_sum [Fin 0, Fin 0, Fin 0, Fin 0]) (Fin 1))) epsilon = False
   \<and> py_truediv (Fin 0) (py_sum [Fin 0, Fin 0, Fin 0, Fin 0]) = Inl ZeroDivisionError
   \<and> normalize_weights_compatible_with_gl_float [Fin 0, Fin 0, Fin 0, Fin 0]
       = Inl ZeroDivisionError"
  using zeros_sum zeros_not_within_epsilon zeros_first_quotient zeros_raise
  by simp

section \<open>The list branch of the nested getter\<close>

lemma list_branch_default:
  "xs \<noteq> [] \<Longrightarrow> 0 \<le> i \<Longrightarrow> i < int (length xs) \<Longrightarrow>
   nested_json_value_getter (JList xs) (IntAttr i # attrs) dflt = Inr dflt"
  by simp

lemma list_branch_raises:
  "xs \<noteq> [] \<Longrightarrow> int (length xs) < i \<Longrightarrow>
   nested_json_value_getter (JList xs) (IntAttr i # attrs) dflt = Inl IndexError"
  by (simp add: py_list_index_def)

text \<open>
  Claim C10.  The list branch is taken only when \<^verbatim>\<open>0 < len(json) < attr\<close>.  So an index
  inside a non-empty list, \<open>0 \<le> attr < len(json)\<close>, gives the default and not the
  element; and an index strictly greater than the length of a non-empty list (every such
  index, hence some) raises \<^verbatim>\<open>IndexError\<close>, as on the one-element list with index 2.
\<close>

theorem nested_getter_list_branch:
  "(\<forall>xs i attrs dflt. xs \<noteq> [] \<and> 0 \<le> i \<and> i < int (length xs)
       \<longrightarrow> nested_json_value_getter (JList xs) (IntAttr i # attrs) dflt = Inr dflt)
   \<and> (\<forall>xs i attrs dflt. xs \<noteq> [] \<and> int (length xs) < i
       \<longrightarrow> nested_json_value_getter (JList xs) (IntAttr i # attrs) dflt = Inl IndexError)
   \<and> nested_json_value_getter (JList [JInt 7]) [IntAttr 2] JNone = Inl IndexError"
  using list_branch_default list_branch_raises by simp

theorem nested_getter_list_branch_witness:
  "[JInt 7, JInt 8] \<noteq> [] \<and> (0::int) \<le> 1 \<and> (1::int) < int (length [JInt 7, JInt 8])
   \<and> py_list_index [JInt 7, JInt 8] 1 = Inr (JInt 8)
   \<and> nested_json_value_getter (JList [JInt 7, JInt 8]) [IntAttr 1] (JStr ''none'')
       = Inr (JStr ''none'')
   \<and> int (length [JInt 7, JInt 8]) < 3
   \<and> nested_json_value_getter (JList [JInt 7, JInt 8]) [IntAttr 3] (JStr ''none'')
       = Inl IndexError"
  using nested_getter_list_branch by (simp add: py_list_index_def)

section \<open>The axis conversion\<close>

lemma round_half_even_minus: "round_half_even (- x) = - round_half_even x"
proof (cases "x \<in> \<int>")
  case True
  then obtain k where "x = of_int k" by (auto elim: Ints_cases)
  then show ?thesis by (simp add: round_half_even_def flip: of_int_minus)
next
  case False
  then have ne: "x \<noteq> of_int \<lfloor>x\<rfloor>"
    by (metis Ints_of_int)
  then have fl: "\<lfloor>- x\<rfloor> = - \<lfloor>x\<rfloor> - 1"
    by (simp add: floor_minus ceiling_altdef)
  have d: "0 < x - of_int \<lfloor>x\<rfloor>"
    using ne of_int_floor_le [of x] by (simp add: less_le)
  show ?thesis
    unfolding round_half_even_def Let_def fl
    by (auto simp: algebra_simps)
qed

lemma round_to_minus: "round_to p emin (- x) = - round_to p emin x"
  by (simp add: round_to_def Let_def round_half_even_minus)

lemma overflows_minus: "overflows emax (- s) = overflows emax s"
  by (simp add: overflows_def)

lemma fl64_minus: "fl64 a = Fin a \<Longrightarrow> fl64 (- a) = Fin (- a)"
  by (auto simp: fl64_def Let_def round_to_minus overflows_minus split: if_splits)

lemma axis_vec3:
  assumes "is_binary64 x" "is_binary64 y" "is_binary64 z"
  shows "axis_blender_to_glb [x, y, z] = Inr [py_neg x, z, y]"
  using assms
  by (cases x; cases y; cases z)
     (simp_all add: axis_blender_to_glb_def and_then_def py_list_index_def is_binary64_def
        fl64_minus)

lemma bone_to_node_translation:
  assumes "head_local b = [hx, hy, hz]"
    and "(case parent_head_local b of Some p \<Rightarrow> p | None \<Rightarrow> [Fin 0, Fin 0, Fin 0])
           = [px, py, pz]"
    and "bone_to_node dic b = Inr n"
  shows "axis_blender_to_glb [py_sub hx px, py_sub hy py, py_sub hz pz]
           = Inr (translation n)"
  using assms
  by (auto simp: bone_to_node_def and_then_def py_list_index_def Let_def
      split: sum.splits)

lemma axis_example:
  "axis_blender_to_glb [Fin 1, Fin 2, Fin 3] = Inr [Fin (- 1), Fin 3, Fin 2]"
  by code_simp

text \<open>
  Claim C3 as stated fails: the claim has the conversion keep X and negate the new Y
  component, which sends \<open>[1, 2, 3]\<close> to \<open>[1, -3, 2]\<close> (or, if Y is the source's Y, to
  \<open>[1, 3, -2]\<close>); the code sends it to \<open>[-1, 3, 2]\<close>.
\<close>

theorem axis_blender_to_glb_negates_y_counterexample:
  "axis_blender_to_glb [Fin 1, Fin 2, Fin 3] = Inr [Fin (- 1), Fin 3, Fin 2]
   \<and> axis_blender_to_glb [Fin 1, Fin 2, Fin 3] \<noteq> Inr [Fin 1, Fin (- 3), Fin 2]
   \<and> axis_blender_to_glb [Fin 1, Fin 2, Fin 3] \<noteq> Inr [Fin 1, Fin 3, Fin (- 2)]"
  by (simp add: axis_example)

text \<open>
  Claim C3, amended.  For every vector of three floats the conversion reorders the
  source axes as \<open>[X, Z, Y]\<close> and negates the X component: \<open>[x, y, z]\<close> becomes
  \<open>[-x, z, y]\<close>.  The translation of a bone's node is the conversion of the bone's head
  minus its parent's head (minus the origin for a bone without parent).
\<close>

theorem axis_blender_to_glb_reorders_and_negates_x:
  "(\<forall>x y z. is_binary64 x \<and> is_binary64 y \<and> is_binary64 z
       \<longrightarrow> axis_blender_to_glb [x, y, z] = Inr [py_neg x, z, y])
   \<and> (\<forall>b dic n hx hy hz px py pz.
          head_local b = [hx, hy, hz]
          \<and> (case parent_head_local b of Some p \<Rightarrow> p | None \<Rightarrow> [Fin 0, Fin 0, Fin 0])
              = [px, py, pz]
          \<and> bone_to_node dic b = Inr n
       \<longrightarrow> axis_blender_to_glb [py_sub hx px, py_sub hy py, py_sub hz pz]
             = Inr (translation n))"
  using axis_vec3 bone_to_node_translation by blast

lemma small_floats: "is_binary64 (Fin 1) \<and> is_binary64 (Fin 2) \<and> is_binary64 (Fin 3)"
  by code_simp

lemma bone_example:
  "bone_to_node [''toe'' \<mapsto> 3]
     \<lparr>bone_name = ''foot'', head_local = [Fin 1, Fin 2, Fin 3],
      parent_head_local = Some [Fin (1 / 2), Fin 0, Fin 1], children_names = [''toe'']\<rparr>
   = Inr \<lparr>node_name = ''foot'', translation = [Fin (- (1 / 2)), Fin 2, Fin 2],
          node_children = Some [3]\<rparr>"
  by code_simp

theorem axis_blender_to_glb_reorders_witness:
  "is_binary64 (Fin 1) \<and> is_binary64 (Fin 2) \<and> is_binary64 (Fin 3)
   \<and> axis_blender_to_glb [Fin 1, Fin 2, Fin 3] = Inr [py_neg (Fin 1), Fin 3, Fin 2]
   \<and> bone_to_node [''toe'' \<mapsto> 3]
        \<lparr>bone_name = ''foot'', head_local = [Fin 1, Fin 2, Fin 3],
         parent_head_local = Some [Fin (1 / 2), Fin 0, Fin 1], children_names = [''toe'']\<rparr>
      = Inr \<lparr>node_name = ''foot'', translation = [Fin (- (1 / 2)), Fin 2, Fin 2],
             node_children = Some [3]\<rparr>
   \<and> axis_blender_to_glb [py_sub (Fin 1) (Fin (1 / 2)), py_sub (Fin 2) (Fin 0),
                           py_sub (Fin 3) (Fin 1)]
      = Inr [Fin (- (1 / 2)), Fin 2, Fin 2]"
proof -
  let ?b = "\<lparr>bone_name = ''foot'', head_local = [Fin 1, Fin 2, Fin 3],
      parent_head_local = Some [Fin (1 / 2), Fin 0, Fin 1], children_names = [''toe'']\<rparr>"
  let ?n = "\<lparr>node_name = ''foot'', translation = [Fin (- (1 / 2)), Fin 2, Fin 2],
          node_children = Some [3]\<rparr>"
  have a: "axis_blender_to_glb [Fin 1, Fin 2, Fin 3] = Inr [py_neg (Fin 1), Fin 3, Fin 2]"
    using axis_blender_to_glb_reorders_and_negates_x small_floats by blast
  have "head_local ?b = [Fin 1, Fin 2, Fin 3]
        \<and> (case parent_head_local ?b of Some p \<Rightarrow> p | None \<Rightarrow> [Fin 0, Fin 0, Fin 0])
            = [Fin (1 / 2), Fin 0, Fin 1]
        \<and> bone_to_node [''toe'' \<mapsto> 3] ?b = Inr ?n"
    using bone_example by simp
  then have "axis_blender_to_glb [py_sub (Fin 1) (Fin (1 / 2)), py_sub (Fin 2) (Fin 0),
               py_sub (Fin 3) (Fin 1)] = Inr (translation ?n)"
    using axis_blender_to_glb_reorders_and_negates_x by blast
  then show ?thesis
    using a small_floats bone_example by simp
qed

section \<open>The layout of the container\<close>

lemma le_digits:
  "(n::nat) mod 256 + (256 * (n div 256 mod 256)
     + (65536 * (n div 65536 mod 256) + 16777216 * (n div 16777216))) = n"
proof -
  have a: "n div 65536 = n div 256 div 256"
    by (simp add: div_mult2_eq [symmetric])
  have b: "n div 16777216 = n div 256 div 256 div 256"
    by (simp add: div_mult2_eq [symmetric])
  show ?thesis
    unfolding a b
    using div_mult_mod_eq [of n 256] div_mult_mod_eq [of "n div 256" 256]
      div_mult_mod_eq [of "n div 256 div 256" 256]
    by linarith
qed

lemma unpack_I_le_bytes:
  assumes "n < 2 ^ 32"
  shows "unpack_I [of_nat n, of_nat (n div 2 ^ 8), of_nat (n div 2 ^ 16), of_nat (n div 2 ^ 24)]
           = n"
proof -
  have m: "n div 16777216 mod 256 = n div 16777216"
    using assms by (simp add: less_mult_imp_div_less)
  have "unpack_I [of_nat n, of_nat (n div 2 ^ 8), of_nat (n div 2 ^ 16), of_nat (n div 2 ^ 24)]
    = n mod 256 + (256 * (n div 256 mod 256)
     + (65536 * (n div 65536 mod 256) + 16777216 * (n div 16777216 mod 256)))"
    by (simp add: unpack_I_def unat_of_nat)
  then show ?thesis
    by (simp only: m le_digits)
qed

lemma pack_I_Inr:
  assumes "pack_I n = Inr bs"
  shows "n < 2 ^ 32 \<and> length bs = 4 \<and> unpack_I bs = n"
proof -
  from assms have n: "n < 2 ^ 32"
    and bs: "bs = [of_nat n, of_nat (n div 2 ^ 8), of_nat (n div 2 ^ 16), of_nat (n div 2 ^ 24)]"
    by (auto simp: pack_I_def split: if_splits)
  have "length bs = 4"
    unfolding bs by simp
  moreover have "unpack_I bs = n"
    unfolding bs using n by (rule unpack_I_le_bytes)
  ultimately show ?thesis
    using n by simp
qed

lemma pack_I_fits: "n < 2 ^ 32 \<Longrightarrow> \<exists>bs. pack_I n = Inr bs"
  by (simp add: pack_I_def)

lemma length_ascii: "length (ascii s) = length s"
  by (simp add: ascii_def)

text \<open>The two paddings, as numbers of bytes.\<close>

lemma pad_cases:
  fixes xs :: "byte list" and c :: byte
  shows "\<exists>k. k < 4 \<and> (length xs + k) mod 4 = 0
           \<and> (if length xs mod 4 \<noteq> 0 then xs @ replicate (4 - length xs mod 4) c else xs)
               = xs @ replicate k c"
proof (cases "length xs mod 4 = 0")
  case True
  then show ?thesis by (intro exI [of _ 0]) simp
next
  case False
  then have "(length xs + (4 - length xs mod 4)) mod 4 = 0"
    by presburger
  with False show ?thesis
    by (intro exI [of _ "4 - length xs mod 4"]) simp
qed

lemma finalize_padded:
  assumes "(if length js mod 4 \<noteq> 0 then js @ replicate (4 - length js mod 4) 0x20 else js) = jp"
    and "(if length bn mod 4 \<noteq> 0 then bn @ replicate (4 - length bn mod 4) 0x00 else bn) = bp"
  shows "finalize js bn =
     (case pack_I (length jp) of Inl e \<Rightarrow> Inl e | Inr jsize \<Rightarrow>
      (case pack_I (length bp) of Inl e \<Rightarrow> Inl e | Inr bsize \<Rightarrow>
      (case pack_I (length jp + length bp + 28) of Inl e \<Rightarrow> Inl e | Inr tsize \<Rightarrow>
         Inr (ascii ''glTF'' @ [2, 0, 0, 0] @ tsize @ jsize @ ascii ''JSON'' @ jp
              @ bsize @ ascii ''BIN'' @ [0] @ bp))))"
proof -
  have two: "pack_I 2 = Inr [2, 0, 0, 0]"
    by (simp add: pack_I_def)
  show ?thesis
    unfolding finalize_def Let_def assms two and_then_def
    by (simp split: sum.splits)
qed

lemma length_container:
  "length tsize = 4 \<Longrightarrow> length jsize = 4 \<Longrightarrow> length bsize = 4 \<Longrightarrow>
   length (ascii ''glTF'' @ [2, 0, 0, 0] @ tsize @ jsize @ ascii ''JSON'' @ jp
              @ bsize @ ascii ''BIN'' @ [0] @ bp) = length jp + length bp + 28"
  by (simp add: length_ascii)

lemma total_field:
  "length tsize = 4 \<Longrightarrow> take 4 (drop 8 (ascii ''glTF'' @ [2, 0, 0, 0] @ tsize @ rest)) = tsize"
  by (simp add: ascii_def)

lemma finalize_Inr:
  assumes "finalize js bn = Inr out"
  shows "\<exists>jpad bpad tsize jsize bsize.
           jpad < 4 \<and> bpad < 4
           \<and> (length js + jpad) mod 4 = 0 \<and> (length bn + bpad) mod 4 = 0
           \<and> pack_I (length out) = Inr tsize
           \<and> pack_I (length js + jpad) = Inr jsize
           \<and> pack_I (length bn + bpad) = Inr bsize
           \<and> out = ascii ''glTF'' @ [2, 0, 0, 0] @ tsize
                    @ jsize @ ascii ''JSON'' @ js @ replicate jpad 0x20
                    @ bsize @ ascii ''BIN'' @ [0] @ bn @ replicate bpad 0
           \<and> length out = (length js + jpad) + (length bn + bpad) + 28
           \<and> unpack_I (take 4 (drop 8 out)) = length out"
proof -
  from pad_cases [of js "0x20"] obtain jpad where
    "jpad < 4 \<and> (length js + jpad) mod 4 = 0
     \<and> (if length js mod 4 \<noteq> 0 then js @ replicate (4 - length js mod 4) 0x20 else js)
         = js @ replicate jpad 0x20" ..
  then have j: "jpad < 4" "(length js + jpad) mod 4 = 0"
    "(if length js mod 4 \<noteq> 0 then js @ replicate (4 - length js mod 4) 0x20 else js)
       = js @ replicate jpad 0x20"
    by (rule conjunct1, rule conjunct2 [THEN conjunct1], rule conjunct2 [THEN conjunct2])
  from pad_cases [of bn "0x00"] obtain bpad where
    "bpad < 4 \<and> (length bn + bpad) mod 4 = 0
     \<and> (if length bn mod 4 \<noteq> 0 then bn @ replicate (4 - length bn mod 4) 0x00 else bn)
         = bn @ replicate bpad 0x00" ..
  then have b: "bpad < 4" "(length bn + bpad) mod 4 = 0"
    "(if length bn mod 4 \<noteq> 0 then bn @ replicate (4 - length bn mod 4) 0x00 else bn)
       = bn @ replicate bpad 0x00"
    by (rule conjunct1, rule conjunct2 [THEN conjunct1], rule conjunct2 [THEN conjunct2])
  let ?jp = "js @ replicate jpad 0x20" and ?bp = "bn @ replicate bpad 0x00"
  note eq = finalize_padded [OF j(3) b(3)]
  obtain jsize where js: "pack_I (length ?jp) = Inr jsize"
    using assms unfolding eq by (cases "pack_I (length ?jp)") simp_all
  obtain bsize where bs: "pack_I (length ?bp) = Inr bsize"
    using assms unfolding eq js by (cases "pack_I (length ?bp)") simp_all
  obtain tsize where ts: "pack_I (length ?jp + length ?bp + 28) = Inr tsize"
    using assms unfolding eq js bs
    by (cases "pack_I (length ?jp + length ?bp + 28)") simp_all
  have out: "out = ascii ''glTF'' @ [2, 0, 0, 0] @ tsize @ jsize @ ascii ''JSON'' @ ?jp
              @ bsize @ ascii ''BIN'' @ [0] @ ?bp"
    using assms unfolding eq js bs ts by simp
  have l: "length jsize = 4" "length bsize = 4" "length tsize = 4"
    and u: "unpack_I tsize = length ?jp + length ?bp + 28"
    using js bs ts pack_I_Inr by blast+
  have len: "length out = length ?jp + length ?bp + 28"
    unfolding out by (rule length_container [OF l(3) l(1) l(2)])
  have fld: "take 4 (drop 8 out) = tsize"
    unfolding out using l(3) by (rule total_field)
  have ts': "pack_I (length out) = Inr tsize"
    using ts len by simp
  have js': "pack_I (length js + jpad) = Inr jsize" and bs': "pack_I (length bn + bpad) = Inr bsize"
    using js bs by simp_all
  have out': "out = ascii ''glTF'' @ [2, 0, 0, 0] @ tsize
                    @ jsize @ ascii ''JSON'' @ js @ replicate jpad 0x20
                    @ bsize @ ascii ''BIN'' @ [0] @ bn @ replicate bpad 0"
    using out by simp
  have len': "length out = (length js + jpad) + (length bn + bpad) + 28"
    using len by simp
  have fld': "unpack_I (take 4 (drop 8 out)) = length out"
    using fld u len by simp
  show ?thesis
    by (rule exI [of _ jpad], rule exI [of _ bpad], rule exI [of _ tsize],
        rule exI [of _ jsize], rule exI [of _ bsize])
       (intro conjI j(1) b(1) j(2) b(2) ts' js' bs' out' len' fld')
qed

lemma finalize_fits:
  assumes "length js + length bn + 34 < 2 ^ 32"
  shows "\<exists>out. finalize js bn = Inr out"
proof -
  from pad_cases [of js "0x20"] obtain jpad where
    "jpad < 4 \<and> (length js + jpad) mod 4 = 0
     \<and> (if length js mod 4 \<noteq> 0 then js @ replicate (4 - length js mod 4) 0x20 else js)
         = js @ replicate jpad 0x20" ..
  then have j: "jpad < 4" "(length js + jpad) mod 4 = 0"
    "(if length js mod 4 \<noteq> 0 then js @ replicate (4 - length js mod 4) 0x20 else js)
       = js @ replicate jpad 0x20"
    by (rule conjunct1, rule conjunct2 [THEN conjunct1], rule conjunct2 [THEN conjunct2])
  from pad_cases [of bn "0x00"] obtain bpad where
    "bpad < 4 \<and> (length bn + bpad) mod 4 = 0
     \<and> (if length bn mod 4 \<noteq> 0 then bn @ replicate (4 - length bn mod 4) 0x00 else bn)
         = bn @ replicate bpad 0x00" ..
  then have b: "bpad < 4" "(length bn + bpad) mod 4 = 0"
    "(if length bn mod 4 \<noteq> 0 then bn @ replicate (4 - length bn mod 4) 0x00 else bn)
       = bn @ replicate bpad 0x00"
    by (rule conjunct1, rule conjunct2 [THEN conjunct1], rule conjunct2 [THEN conjunct2])
  let ?jp = "js @ replicate jpad 0x20" and ?bp = "bn @ replicate bpad 0x00"
  have f: "length ?jp < 2 ^ 32" "length ?bp < 2 ^ 32" "length ?jp + length ?bp + 28 < 2 ^ 32"
    using assms j(1) b(1) by simp_all
  from pack_I_fits [OF f(1)] obtain jsize where p1: "pack_I (length ?jp) = Inr jsize" ..
  from pack_I_fits [OF f(2)] obtain bsize where p2: "pack_I (length ?bp) = Inr bsize" ..
  from pack_I_fits [OF f(3)] obtain tsize where
    p3: "pack_I (length ?jp + length ?bp + 28) = Inr tsize" ..
  from p1 p2 p3 show ?thesis
    unfolding finalize_padded [OF j(3) b(3)] by simp
qed

text \<open>
  Claim C2.  Whatever the encoded JSON document and the binary payload, an output of
  \<^verbatim>\<open>finalize\<close> is the magic \<^verbatim>\<open>glTF\<close>, the version 2 and the total length, then the
  length of the JSON chunk, the tag \<^verbatim>\<open>JSON\<close> and the document padded with spaces, then
  the length of the binary chunk, the tag \<^verbatim>\<open>BIN\0\<close> and the payload padded with zero
  bytes; each padding is of fewer than four bytes and brings its chunk to a multiple of
  four; and the total-length field, bytes 8 to 11, declares the length of the output,
  which is the two padded lengths plus 28.  An output exists whenever these lengths fit
  the 32-bit fields that hold them (beyond that, \<^verbatim>\<open>struct.pack\<close> raises).
\<close>

theorem finalize_layout_and_total_length:
  "(\<forall>js bn out. finalize js bn = Inr out \<longrightarrow>
      (\<exists>jpad bpad tsize jsize bsize.
           jpad < 4 \<and> bpad < 4
           \<and> (length js + jpad) mod 4 = 0 \<and> (length bn + bpad) mod 4 = 0
           \<and> pack_I (length out) = Inr tsize
           \<and> pack_I (length js + jpad) = Inr jsize
           \<and> pack_I (length bn + bpad) = Inr bsize
           \<and> out = ascii ''glTF'' @ [2, 0, 0, 0] @ tsize
                    @ jsize @ ascii ''JSON'' @ js @ replicate jpad 0x20
                    @ bsize @ ascii ''BIN'' @ [0] @ bn @ replicate bpad 0
           \<and> length out = (length js + jpad) + (length bn + bpad) + 28
           \<and> unpack_I (take 4 (drop 8 out)) = length out))
   \<and> (\<forall>js bn. length js + length bn + 34 < 2 ^ 32 \<longrightarrow> (\<exists>out. finalize js bn = Inr out))"
proof (intro conjI allI impI)
  fix js bn out
  assume "finalize js bn = Inr out"
  then show "\<exists>jpad bpad tsize jsize bsize.
           jpad < 4 \<and> bpad < 4
           \<and> (length js + jpad) mod 4 = 0 \<and> (length bn + bpad) mod 4 = 0
           \<and> pack_I (length out) = Inr tsize
           \<and> pack_I (length js + jpad) = Inr jsize
           \<and> pack_I (length bn + bpad) = Inr bsize
           \<and> out = ascii ''glTF'' @ [2, 0, 0, 0] @ tsize
                    @ jsize @ ascii ''JSON'' @ js @ replicate jpad 0x20
                    @ bsize @ ascii ''BIN'' @ [0] @ bn @ replicate bpad 0
           \<and> length out = (length js + jpad) + (length bn + bpad) + 28
           \<and> unpack_I (take 4 (drop 8 out)) = length out"
    by (rule finalize_Inr)
next
  fix js bn :: "byte list"
  assume "length js + length bn + 34 < 2 ^ 32"
  then show "\<exists>out. finalize js bn = Inr out"
    by (rule finalize_fits)
qed

lemma finalize_example:
  "finalize (ascii ''{}'') [1, 2, 3]
     = Inr [0x67, 0x6C, 0x54, 0x46, 2, 0, 0, 0, 36, 0, 0, 0,
            4, 0, 0, 0, 0x4A, 0x53, 0x4F, 0x4E, 0x7B, 0x7D, 0x20, 0x20,
            4, 0, 0, 0, 0x42, 0x49, 0x4E, 0, 1, 2, 3, 0]"
proof -
  have r: "replicate 2 (0x20 :: byte) = [0x20, 0x20]"
    by (simp add: numeral_2_eq_2)
  show ?thesis
    by (simp add: finalize_def ascii_def pack_I_def and_then_def r)
qed

theorem finalize_layout_witness:
  "finalize (ascii ''{}'') [1, 2, 3]
     = Inr [0x67, 0x6C, 0x54, 0x46, 2, 0, 0, 0, 36, 0, 0, 0,
            4, 0, 0, 0, 0x4A, 0x53, 0x4F, 0x4E, 0x7B, 0x7D, 0x20, 0x20,
            4, 0, 0, 0, 0x42, 0x49, 0x4E, 0, 1, 2, 3, 0]
   \<and> length (ascii ''{}'') + length [1, 2, 3 :: byte] + 34 < 2 ^ 32
   \<and> unpack_I (take 4 (drop 8
         [0x67, 0x6C, 0x54, 0x46, 2, 0, 0, 0, 36, 0, 0, 0,
          4, 0, 0, 0, 0x4A, 0x53, 0x4F, 0x4E, 0x7B, 0x7D, 0x20, 0x20,
          4, 0, 0, 0, 0x42, 0x49, 0x4E, 0, 1, 2, 3, 0 :: byte])) = 36"
proof -
  let ?out = "[0x67, 0x6C, 0x54, 0x46, 2, 0, 0, 0, 36, 0, 0, 0,
            4, 0, 0, 0, 0x4A, 0x53, 0x4F, 0x4E, 0x7B, 0x7D, 0x20, 0x20,
            4, 0, 0, 0, 0x42, 0x49, 0x4E, 0, 1, 2, 3, 0 :: byte]"
  have fits: "length (ascii ''{}'') + length [1, 2, 3 :: byte] + 34 < 2 ^ 32"
    by (simp add: ascii_def)
  note ex = finalize_layout_and_total_length [THEN conjunct2, rule_format, OF fits]
  note lay = finalize_layout_and_total_length [THEN conjunct1, rule_format, OF finalize_example]
  from ex lay
  have "unpack_I (take 4 (drop 8 ?out)) = length ?out"
    by (elim exE conjE)
  then have "unpack_I (take 4 (drop 8 ?out)) = 36"
    by simp
  with finalize_example fits show ?thesis
    by (intro conjI)
qed

section \<open>Vertices without weight, and the four joints of a vertex\<close>

lemma gather_weights_small:
  assumes "\<forall>(g, w) \<in> set groups. w < 1 / 2 ^ 52"
    and "gather_weights env groups = Inr (gathered, printed)"
  shows "gathered = []"
  using assms
proof (induction groups arbitrary: gathered printed)
  case Nil
  then show ?case by simp
next
  case (Cons gw groups)
  obtain g w where gw: "gw = (g, w)" by (cases gw)
  from Cons.prems(1) gw have w: "w < 1 / 2 ^ 52" and rest: "\<forall>(g, w) \<in> set groups. w < 1 / 2 ^ 52"
    by auto
  from Cons.prems(2) gw obtain rest_gathered rest_printed where
    r: "gather_weights env groups = Inr (rest_gathered, rest_printed)"
    and g: "gathered = rest_gathered"
    using w
    by (auto simp: and_then_def epsilon_def split: sum.splits prod.splits if_splits)
  from Cons.IH [OF rest r] g show ?case by simp
qed

lemma pad_sort_truncate_empty:
  "pad_sort_truncate vert_index mesh [] = ([(0, 0), (0, 0), (0, 0), (0, 0)], [])"
  by (simp add: pad_sort_truncate_def eval_nat_numeral)

lemma zero_weights_below_epsilon:
  "py_lt (py_sum (map Fin [0, 0, 0, 0])) epsilon"
  by code_simp

lemma pack_unit_weights:
  "float_vec4_packer [Fin 1, Fin 0, Fin 0, Fin 0] = Inr [Fin 1, Fin 0, Fin 0, Fin 0]"
  by code_simp

lemma pack_hips_joints:
  "h < 2 ^ 16 \<Longrightarrow> unsigned_short_vec4_packer [int h, 0, 0, 0] = Inr [h, 0, 0, 0]"
  by (simp add: unsigned_short_vec4_packer_def)

lemma vertex_skin_no_weight:
  assumes small: "\<forall>(g, w) \<in> set groups. w < 1 / 2 ^ 52"
    and gathered: "gather_weights env groups = Inr (gathered, printed)"
    and hips: "hips env = Some hips_bone_name"
    and node: "first_index (node_names env) hips_bone_name = Some hips_bone_index"
    and short: "hips_bone_index < 2 ^ 16"
  shows "vertex_skin env vert_index groups
           = Inr ([hips_bone_index, 0, 0, 0], [Fin 1, Fin 0, Fin 0, Fin 0],
                  printed @ [NoWeight vert_index (mesh_name env)])"
proof -
  have g: "gather_weights env groups = Inr ([], printed)"
    using gather_weights_small [OF small gathered] gathered by simp
  have z: "py_lt (py_sum [Fin 0, Fin 0, Fin 0, Fin 0]) epsilon"
    using zero_weights_below_epsilon by simp
  have a: "attach_hips env vert_index
             = Inr ([1, 0, 0, 0], [int hips_bone_index, 0, 0, 0],
                    [NoWeight vert_index (mesh_name env)])"
    by (simp add: attach_hips_def hips node)
  show ?thesis
    unfolding vertex_skin_def g
    by (simp add: and_then_def pad_sort_truncate_empty z a normalize_unit
        pack_hips_joints [OF short] pack_unit_weights)
qed

text \<open>
  Claim C5.  A vertex all of whose weights are below \<^verbatim>\<open>float_info.epsilon\<close> gets the
  weights \<open>[1, 0, 0, 0]\<close>, a message is printed and the export goes on, but its first
  joint is not the hips bone.  The armature has the bones root, hips and other, the last
  two children of the first, so the nodes are root, hips, other and the node of the mesh,
  and the walk over the bones gives the skin the joints \<open>[0, 2, 1]\<close>.  The vertex has one
  group, of the hips bone, with weight 0.  The lookup that every weighted vertex goes
  through resolves the hips bone to the joint 2, its position among the joints of the
  skin.  The vertex without weight gets the joint 1, the position of hips among the
  nodes; the joint 1 of the skin is the node 2, the bone other.
\<close>

theorem no_weight_vertex_bound_to_node_index_of_hips:
  "vertex_skin
     \<lparr>v_group_name_dic = [0 \<mapsto> ''hips'', 1 \<mapsto> ''other''],
      node_names = [''root'', ''hips'', ''other'', ''body''],
      skins_joints = [[0, 2, 1]], hips = Some ''hips'', mesh_name = ''body''\<rparr>
     7 [(0, 0)]
     = Inr ([1, 0, 0, 0], [Fin 1, Fin 0, Fin 0, Fin 0], [NoWeight 7 ''body''])
   \<and> joint_id_from_node_name_solver
     \<lparr>v_group_name_dic = [0 \<mapsto> ''hips'', 1 \<mapsto> ''other''],
      node_names = [''root'', ''hips'', ''other'', ''body''],
      skins_joints = [[0, 2, 1]], hips = Some ''hips'', mesh_name = ''body''\<rparr>
     ''hips'' = Inr (2, [])
   \<and> [''root'', ''hips'', ''other'', ''body''] ! ([0, 2, 1] ! 1) = ''other''
   \<and> [''root'', ''hips'', ''other'', ''body''] ! ([0, 2, 1] ! 2) = ''hips''"
  by code_simp

section \<open>Padding, sorting and the cut to four pairs\<close>

lemma gather_weights_retained:
  assumes "gather_weights env groups = Inr (gathered, printed)"
    and "(w, j) \<in> set gathered"
  shows "1 / 2 ^ 52 \<le> w \<and> 0 \<le> j"
  using assms
proof (induction groups arbitrary: gathered printed)
  case Nil
  then show ?case by simp
next
  case (Cons gw groups)
  obtain g w' where gw: "gw = (g, w')" by (cases gw)
  from Cons.prems(1) gw obtain name joint_id p1 rest p2 where
    s: "joint_id_from_node_name_solver env name = Inr (joint_id, p1)"
    and r: "gather_weights env groups = Inr (rest, p2)"
    and g: "gathered = (if joint_id = - 1 then rest
             else if py_lt (Fin w') epsilon then rest
             else (w', joint_id) # rest)"
    by (auto simp: and_then_def split: sum.splits prod.splits)
  have j: "joint_id = - 1 \<or> 0 \<le> joint_id"
    using s
    by (auto simp: joint_id_from_node_name_solver_def
        split: option.splits list.splits)
  show ?case
  proof (cases "(w, j) \<in> set rest")
    case True
    with Cons.IH [OF r] show ?thesis by simp
  next
    case False
    with Cons.prems(2) g have "joint_id \<noteq> - 1" "\<not> py_lt (Fin w') epsilon"
      "w = w'" "j = joint_id"
      by (auto split: if_splits)
    with j show ?thesis
      by (simp add: epsilon_def)
  qed
qed

lemma pad_sort_truncate_props:
  assumes "pad_sort_truncate vert_index mesh xs = (ys, printed)"
  shows "length ys = 4"
    and "sorted_wrt (\<lambda>a b. b \<le> a) (map fst ys)"
    and "\<exists>dropped. mset (ys @ dropped) = mset (xs @ replicate (4 - length xs) (0, 0))
           \<and> (\<forall>k \<in> set ys. \<forall>d \<in> set dropped. fst d \<le> fst k)
           \<and> (dropped = []) = (length xs \<le> 4)"
    and "printed = (if 4 < length xs then [JointsTruncated vert_index mesh] else [])"
proof -
  let ?padded = "xs @ replicate (4 - length xs) (0, 0)"
  let ?s = "rev (sort ?padded)"
  have len: "length ?s = max 4 (length xs)"
    by auto
  have ys: "ys = take 4 ?s"
    using assms len by (auto simp: pad_sort_truncate_def Let_def split: if_splits)
  show "length ys = 4"
    unfolding ys using len by simp
  have desc: "sorted_wrt (\<lambda>a b. b \<le> a) ?s"
    by (simp add: sorted_wrt_rev)
  have "sorted_wrt (\<lambda>a b. b \<le> a) ys"
    unfolding ys using desc by (rule sorted_wrt_take)
  then have "sorted_wrt (\<lambda>a b. fst b \<le> fst a) ys"
    by (rule sorted_wrt_mono_rel [rotated]) (auto simp: less_eq_prod_def)
  then show "sorted_wrt (\<lambda>a b. b \<le> a) (map fst ys)"
    by (simp add: sorted_wrt_map)
  have split: "sorted_wrt (\<lambda>a b. b \<le> a) (take 4 ?s @ drop 4 ?s)"
    using desc by simp
  have fst_le: "fst d \<le> fst k" if "d \<le> k" for d k :: "rat \<times> int"
    using that by (auto simp: less_eq_prod_def)
  have "\<forall>k \<in> set (take 4 ?s). \<forall>d \<in> set (drop 4 ?s). d \<le> k"
    using split unfolding sorted_wrt_append by blast
  then have low: "\<forall>k \<in> set ys. \<forall>d \<in> set (drop 4 ?s). fst d \<le> fst k"
    unfolding ys using fst_le by blast
  have m: "mset (ys @ drop 4 ?s) = mset ?padded"
    unfolding ys by (simp del: mset_append)
  have d: "(drop 4 ?s = []) = (length xs \<le> 4)"
    using len by auto
  from m low d show "\<exists>dropped. mset (ys @ dropped) = mset ?padded
           \<and> (\<forall>k \<in> set ys. \<forall>d \<in> set dropped. fst d \<le> fst k)
           \<and> (dropped = []) = (length xs \<le> 4)"
    by (intro exI [of _ "drop 4 ?s"] conjI)
  show "printed = (if 4 < length xs then [JointsTruncated vert_index mesh] else [])"
    using assms len by (auto simp: pad_sort_truncate_def Let_def split: if_splits)
qed

lemma map_err_length: "map_err f xs = Inr ys \<Longrightarrow> length ys = length xs"
  by (induction xs arbitrary: ys) (auto split: sum.splits)

lemma vertex_skin_four:
  assumes "vertex_skin env vert_index groups = Inr (joints, weights, printed)"
  shows "length joints = 4 \<and> length weights = 4"
proof -
  from assms obtain js ws where
    j: "unsigned_short_vec4_packer js = Inr joints"
    and w: "float_vec4_packer ws = Inr weights"
    by (auto simp: vertex_skin_def and_then_def Let_def split: sum.splits prod.splits if_splits)
  from j have "length joints = 4"
    by (auto simp: unsigned_short_vec4_packer_def dest: map_err_length split: if_splits)
  moreover from w have "length weights = 4"
    by (auto simp: float_vec4_packer_def dest: map_err_length split: if_splits)
  ultimately show ?thesis ..
qed

text \<open>
  Claim C6.  The pairs that the loop over the groups retains have a resolved joint and a
  weight of at least epsilon.  They are then padded with \<open>(0, 0)\<close> up to four, sorted in
  descending order (by weight, equal weights by joint), and cut to the first four: the
  result has exactly four pairs, in descending order of weight; together with the dropped
  pairs it is a permutation of the padded list; no dropped pair is heavier than a kept
  one; pairs are dropped, and the message \<open>JointsTruncated\<close> is printed, exactly when more
  than four pairs were retained.  Whenever the skinning of a vertex returns, it appends
  exactly four joints and four weights.
\<close>

theorem skin_pairs_padded_sorted_cut_to_four:
  "(\<forall>env groups gathered printed w j.
      gather_weights env groups = Inr (gathered, printed) \<and> (w, j) \<in> set gathered
      \<longrightarrow> 1 / 2 ^ 52 \<le> w \<and> 0 \<le> j)
   \<and> (\<forall>vert_index mesh xs ys printed.
      pad_sort_truncate vert_index mesh xs = (ys, printed)
      \<longrightarrow> length ys = 4
          \<and> sorted_wrt (\<lambda>a b. b \<le> a) (map fst ys)
          \<and> (\<exists>dropped. mset (ys @ dropped) = mset (xs @ replicate (4 - length xs) (0, 0))
                \<and> (\<forall>k \<in> set ys. \<forall>d \<in> set dropped. fst d \<le> fst k)
                \<and> (dropped = []) = (length xs \<le> 4))
          \<and> printed = (if 4 < length xs then [JointsTruncated vert_index mesh] else []))
   \<and> (\<forall>env vert_index groups joints weights printed.
      vertex_skin env vert_index groups = Inr (joints, weights, printed)
      \<longrightarrow> length joints = 4 \<and> length weights = 4)"
proof (intro conjI allI impI)
  fix env groups gathered printed and w :: rat and j :: int
  assume a: "gather_weights env groups = Inr (gathered, printed) \<and> (w, j) \<in> set gathered"
  from a gather_weights_retained [of env groups gathered printed w j]
  show "1 / 2 ^ 52 \<le> w" "0 \<le> j"
    by simp_all
next
  fix vert_index mesh and xs ys :: "(rat \<times> int) list" and printed
  assume a: "pad_sort_truncate vert_index mesh xs = (ys, printed)"
  show "length ys = 4"
    using a by (rule pad_sort_truncate_props(1))
  show "sorted_wrt (\<lambda>a b. b \<le> a) (map fst ys)"
    using a by (rule pad_sort_truncate_props(2))
  show "\<exists>dropped. mset (ys @ dropped) = mset (xs @ replicate (4 - length xs) (0, 0))
                \<and> (\<forall>k \<in> set ys. \<forall>d \<in> set dropped. fst d \<le> fst k)
                \<and> (dropped = []) = (length xs \<le> 4)"
    using a by (rule pad_sort_truncate_props(3))
  show "printed = (if 4 < length xs then [JointsTruncated vert_index mesh] else [])"
    using a by (rule pad_sort_truncate_props(4))
next
  fix env vert_index groups joints weights printed
  assume a: "vertex_skin env vert_index groups = Inr (joints, weights, printed)"
  from vertex_skin_four [OF a] show "length joints = 4" "length weights = 4"
    by simp_all
qed

lemma five_pairs_example:
  "pad_sort_truncate 7 ''body'' [(1 / 8, 1), (1 / 4, 2), (1 / 2, 3), (1 / 16, 0), (1 / 16, 5)]
     = ([(1 / 2, 3), (1 / 4, 2), (1 / 8, 1), (1 / 16, 5)], [JointsTruncated 7 ''body''])"
  by code_simp

lemma five_groups_example:
  "vertex_skin
     \<lparr>v_group_name_dic = [0 \<mapsto> ''a'', 1 \<mapsto> ''b'', 2 \<mapsto> ''c'', 3 \<mapsto> ''d'', 4 \<mapsto> ''e''],
      node_names = [''a'', ''b'', ''c'', ''d'', ''e'', ''mesh''],
      skins_joints = [[0, 1, 2, 3, 4]], hips = Some ''a'', mesh_name = ''body''\<rparr>
     7 [(0, 1 / 16), (1, 1 / 8), (2, 1 / 4), (3, 1 / 2), (4, 1 / 16)]
   = Inr ([3, 2, 1, 4],
          [Fin (8947849 / 16777216), Fin (8947849 / 33554432), Fin (8947849 / 67108864),
           Fin (8947849 / 134217728)],
          [JointsTruncated 7 ''body''])"
  by code_simp

theorem skin_pairs_cut_to_four_witness:
  "pad_sort_truncate 7 ''body'' [(1 / 8, 1), (1 / 4, 2), (1 / 2, 3), (1 / 16, 0), (1 / 16, 5)]
     = ([(1 / 2, 3), (1 / 4, 2), (1 / 8, 1), (1 / 16, 5)], [JointsTruncated 7 ''body''])
   \<and> length [(1 / 2 :: rat, 3 :: int), (1 / 4, 2), (1 / 8, 1), (1 / 16, 5)] = 4
   \<and> sorted_wrt (\<lambda>a b. b \<le> a)
        (map fst [(1 / 2 :: rat, 3 :: int), (1 / 4, 2), (1 / 8, 1), (1 / 16, 5)])
   \<and> vertex_skin
     \<lparr>v_group_name_dic = [0 \<mapsto> ''a'', 1 \<mapsto> ''b'', 2 \<mapsto> ''c'', 3 \<mapsto> ''d'', 4 \<mapsto> ''e''],
      node_names = [''a'', ''b'', ''c'', ''d'', ''e'', ''mesh''],
      skins_joints = [[0, 1, 2, 3, 4]], hips = Some ''a'', mesh_name = ''body''\<rparr>
     7 [(0, 1 / 16), (1, 1 / 8), (2, 1 / 4), (3, 1 / 2), (4, 1 / 16)]
   = Inr ([3, 2, 1, 4],
          [Fin (8947849 / 16777216), Fin (8947849 / 33554432), Fin (8947849 / 67108864),
           Fin (8947849 / 134217728)],
          [JointsTruncated 7 ''body''])
   \<and> length [3 :: nat, 2, 1, 4] = 4"
proof -
  note p = skin_pairs_padded_sorted_cut_to_four
    [THEN conjunct2, THEN conjunct1, rule_format, OF five_pairs_example]
  note v = skin_pairs_padded_sorted_cut_to_four
    [THEN conjunct2, THEN conjunct2, rule_format, OF five_groups_example]
  from p v five_pairs_example five_groups_example show ?thesis
    by simp
qed

section \<open>One slot for each key\<close>

































end
